theory Spec2Isabelle
  imports Main "HOL-Library.Word" "HOL-Library.AList" "HOL-Library.Char_ord"
    "HOL-Library.List_Lexorder"
begin

section \<open>Python values shared by both scripts\<close>

text \<open>
  A Python \<open>str\<close> is modelled as a \<open>string\<close> whose characters stand for the code points
  0..255; \<open>bytes\<close> are lists of 8-bit words. Exceptions are values; \<open>is_Exception\<close> tells
  the classes derived from \<open>Exception\<close> (caught by \<open>except Exception\<close>) from
  \<open>KeyboardInterrupt\<close> and \<open>SystemExit\<close>, which derive from \<open>BaseException\<close> only.
\<close>

type_synonym bytes = "8 word list"

datatype exn =
    KeyboardInterrupt
  | SystemExit nat
  | CalledProcessError bytes
  | UnicodeDecodeError
  | FileNotFoundError
  | IndexError
  | NotFound
  | GoogleAPICallError
  | OtherException string

fun is_Exception :: "exn \<Rightarrow> bool" where
  "is_Exception KeyboardInterrupt = False"
| "is_Exception (SystemExit n) = False"
| "is_Exception e = True"

definition NL :: string where
  "NL = [CHR 0x0A]"

text \<open>\<open>sep.join(parts)\<close> of Python.\<close>

fun join :: "string \<Rightarrow> string list \<Rightarrow> string" where
  "join s [] = []"
| "join s [x] = x"
| "join s (x # y # ys) = x @ s @ join s (y # ys)"

text \<open>
  \<open>b.decode('utf-8')\<close> raises \<open>UnicodeDecodeError\<close> unless the bytes are well-formed UTF-8
  (no stray continuation byte, no overlong form, no surrogate, nothing above U+10FFFF).
\<close>

definition cont :: "8 word \<Rightarrow> bool" where
  "cont b = (0x80 \<le> b \<and> b \<le> 0xBF)"

fun utf8_ok :: "bytes \<Rightarrow> bool" where
  "utf8_ok [] = True"
| "utf8_ok (b # bs) =
     (if b \<le> 0x7F then utf8_ok bs
      else if 0xC2 \<le> b \<and> b \<le> 0xDF then
        (case bs of c # r \<Rightarrow> cont c \<and> utf8_ok r | _ \<Rightarrow> False)
      else if b = 0xE0 then
        (case bs of c # d # r \<Rightarrow> 0xA0 \<le> c \<and> c \<le> 0xBF \<and> cont d \<and> utf8_ok r | _ \<Rightarrow> False)
      else if (0xE1 \<le> b \<and> b \<le> 0xEC) \<or> b = 0xEE \<or> b = 0xEF then
        (case bs of c # d # r \<Rightarrow> cont c \<and> cont d \<and> utf8_ok r | _ \<Rightarrow> False)
      else if b = 0xED then
        (case bs of c # d # r \<Rightarrow> 0x80 \<le> c \<and> c \<le> 0x9F \<and> cont d \<and> utf8_ok r | _ \<Rightarrow> False)
      else if b = 0xF0 then
        (case bs of c # d # e # r \<Rightarrow>
           0x90 \<le> c \<and> c \<le> 0xBF \<and> cont d \<and> cont e \<and> utf8_ok r | _ \<Rightarrow> False)
      else if 0xF1 \<le> b \<and> b \<le> 0xF3 then
        (case bs of c # d # e # r \<Rightarrow> cont c \<and> cont d \<and> cont e \<and> utf8_ok r | _ \<Rightarrow> False)
      else if b = 0xF4 then
        (case bs of c # d # e # r \<Rightarrow>
           0x80 \<le> c \<and> c \<le> 0x8F \<and> cont d \<and> cont e \<and> utf8_ok r | _ \<Rightarrow> False)
      else False)"

section \<open>transcript\_tool.py: the Slug Generator\<close>

text \<open>
  Patterns on \<open>str\<close> are Unicode-aware in Python 3: \<open>\w\<close> matches every alphanumeric
  code point and the underscore, \<open>\s\<close> every Unicode space. The three tables below are those
  of Python for the code points 0..255.
\<close>

definition is_word :: "char \<Rightarrow> bool" where
  "is_word c = (let n = (of_char c :: nat) in
     (48 \<le> n \<and> n \<le> 57) \<or> (65 \<le> n \<and> n \<le> 90) \<or> n = 95 \<or> (97 \<le> n \<and> n \<le> 122)
     \<or> n = 170 \<or> (178 \<le> n \<and> n \<le> 179) \<or> n = 181 \<or> (185 \<le> n \<and> n \<le> 186)
     \<or> (188 \<le> n \<and> n \<le> 190) \<or> (192 \<le> n \<and> n \<le> 214) \<or> (216 \<le> n \<and> n \<le> 246)
     \<or> 248 \<le> n)"

definition is_space :: "char \<Rightarrow> bool" where
  "is_space c = (let n = (of_char c :: nat) in
     (9 \<le> n \<and> n \<le> 13) \<or> (28 \<le> n \<and> n \<le> 32) \<or> n = 133 \<or> n = 160)"

definition lower_char :: "char \<Rightarrow> char" where
  "lower_char c = (let n = (of_char c :: nat) in
     if (65 \<le> n \<and> n \<le> 90) \<or> (192 \<le> n \<and> n \<le> 214) \<or> (216 \<le> n \<and> n \<le> 222)
     then char_of (n + 32) else c)"

text \<open>The class \<open>[^\w\s-]\<close> is deleted: \<open>kept\<close> is its complement.\<close>

definition kept :: "char \<Rightarrow> bool" where
  "kept c = (is_word c \<or> is_space c \<or> c = CHR ''-'')"

text \<open>The class \<open>[\s:]\<close>; \<open>collapse\<close> is \<open>re.sub(r'[\s:]+', '_', text)\<close>.\<close>

definition sep :: "char \<Rightarrow> bool" where
  "sep c = (is_space c \<or> c = CHR '':'')"

function collapse :: "string \<Rightarrow> string" where
  "collapse [] = []"
| "collapse (c # cs) =
     (if sep c then CHR ''_'' # collapse (dropWhile sep cs) else c # collapse cs)"
  by pat_completeness auto
termination
  by (relation "measure length") (auto simp: le_imp_less_Suc length_dropWhile_le)

text \<open>\<open>text.strip('_')\<close>.\<close>

definition strip_us :: "string \<Rightarrow> string" where
  "strip_us s =
     rev (dropWhile (\<lambda>c. c = CHR ''_'') (rev (dropWhile (\<lambda>c. c = CHR ''_'') s)))"

definition slugify :: "string \<Rightarrow> string" where
  "slugify text = strip_us (map lower_char (collapse (filter kept text)))"



section \<open>transcript\_tool.py: the working directory\<close>

text \<open>
  The working directory is a flat association from file names to regular files. A file
  either holds text, or bytes that do not decode as UTF-8 (reading it with
  \<open>encoding="utf-8"\<close> raises). Lookup is \<open>map_of\<close>, so the first entry of a name counts.
\<close>

datatype content = Text string | Undecodable

type_synonym fs = "(string \<times> content) list"

definition path_exists :: "fs \<Rightarrow> string \<Rightarrow> bool" where
  "path_exists d f = (map_of d f \<noteq> None)"

definition read_text :: "fs \<Rightarrow> string \<Rightarrow> exn + string" where
  "read_text d f =
     (case map_of d f of
        None \<Rightarrow> Inl FileNotFoundError
      | Some Undecodable \<Rightarrow> Inl UnicodeDecodeError
      | Some (Text s) \<Rightarrow> Inr s)"

definition write_text :: "fs \<Rightarrow> string \<Rightarrow> string \<Rightarrow> fs" where
  "write_text d f s = AList.update f (Text s) d"

definition os_rename :: "string \<Rightarrow> string \<Rightarrow> fs \<Rightarrow> exn + fs" where
  "os_rename src dst d =
     (case map_of d src of
        None \<Rightarrow> Inl FileNotFoundError
      | Some c \<Rightarrow> Inr (AList.update dst c (AList.delete src d)))"

definition os_remove :: "string \<Rightarrow> fs \<Rightarrow> exn + fs" where
  "os_remove f d =
     (if path_exists d f then Inr (AList.delete f d) else Inl FileNotFoundError)"



section \<open>transcript\_tool.py: the Identifier Resolver\<close>

text \<open>
  The upstream listing service: building the client, the channel lookup (the uploads
  playlist of each returned item, in order) and one page of a playlist (the video
  identifiers of its items and the \<open>nextPageToken\<close>, absent when the key is missing).
\<close>

record listing =
  build :: "string \<Rightarrow> exn + unit"
  channels_list :: "string \<Rightarrow> exn + string list"
  playlistItems_list :: "string \<Rightarrow> string option \<Rightarrow> exn + string list \<times> string option"

text \<open>\<open>not next_page_token\<close>: \<open>None\<close> and the empty string are false.\<close>

definition no_token :: "string option \<Rightarrow> bool" where
  "no_token t = (t = None \<or> t = Some [])"

text \<open>
  The \<open>while True\<close> loop. It need not end (an upstream that always hands out a token), so
  the result is an option: \<open>None\<close> is the loop that never returns.
\<close>

partial_function (option) fetch_pages ::
  "(string option \<Rightarrow> exn + string list \<times> string option) \<Rightarrow> string list \<Rightarrow> string option
     \<Rightarrow> (exn + string list) option" where
  "fetch_pages page video_ids next_page_token =
     (case page next_page_token of
        Inl e \<Rightarrow> if is_Exception e then Some (Inr video_ids) else Some (Inl e)
      | Inr (ids, tok) \<Rightarrow>
          if no_token tok then Some (Inr (video_ids @ ids))
          else fetch_pages page (video_ids @ ids) tok)"

declare fetch_pages.simps [code]

definition get_channel_videos ::
  "listing \<Rightarrow> string \<Rightarrow> string \<Rightarrow> (exn + string list) option" where
  "get_channel_videos up api_key channel_id =
     (case build up api_key of
        Inl e \<Rightarrow> Some (Inl e)
      | Inr _ \<Rightarrow>
          (case channels_list up channel_id of
             Inl e \<Rightarrow> if is_Exception e then Some (Inr []) else Some (Inl e)
           | Inr [] \<Rightarrow> Some (Inr [])
           | Inr (playlist_id # _) \<Rightarrow> fetch_pages (playlistItems_list up playlist_id) [] None))"

text \<open>
  A finite stretch of the listing: \<open>walk page tok ps\<close> follows the pages \<open>ps\<close>, each
  carrying a token, from \<open>tok\<close> and gives the token reached.
\<close>

fun walk ::
  "(string option \<Rightarrow> exn + string list \<times> string option) \<Rightarrow> string option
     \<Rightarrow> (string list \<times> string option) list \<Rightarrow> string option option" where
  "walk page tok [] = Some tok"
| "walk page tok ((ids, nxt) # ps) =
     (if page tok = Inr (ids, nxt) \<and> \<not> no_token nxt then walk page nxt ps else None)"

section \<open>transcript\_tool.py: the Strategy Executor\<close>

text \<open>
  The external collaborators of one run: the title lookup of pytubefix (keyed by the watch
  URL it is built from; it asks the video service for the title), the captions service,
  \<open>subprocess.run(argv, check=True, capture_output=True)\<close> (a child process may change
  the working directory; a non-zero exit is \<open>CalledProcessError\<close> with the captured
  stderr) and the formatted clock reading taken when the entry of a video is framed.
\<close>

record env =
  yt_title :: "string \<Rightarrow> exn + string"
  get_transcript :: "string \<Rightarrow> exn + string list"
  subprocess_run :: "string list \<Rightarrow> fs \<Rightarrow> (exn + unit) \<times> fs"
  now :: "string \<Rightarrow> string"

text \<open>
  The state a run threads through: the working directory, the calls made to the network
  and to child processes (in order), and the text written to the combined handle.
\<close>

datatype call = TitleLookup string | CaptionsFetch string | Subprocess "string list"

record world =
  files :: fs
  calls :: "call list"
  logged :: string

type_synonym 'a act = "world \<Rightarrow> (exn + 'a) \<times> world"

definition ret :: "'a \<Rightarrow> 'a act" where
  "ret a w = (Inr a, w)"

text \<open>Sequencing: a raised exception skips the rest of the block.\<close>

definition bnd :: "'a act \<Rightarrow> ('a \<Rightarrow> 'b act) \<Rightarrow> 'b act" where
  "bnd m f w = (case m w of (Inl e, w') \<Rightarrow> (Inl e, w') | (Inr a, w') \<Rightarrow> f a w')"

definition title_lookup :: "env \<Rightarrow> string \<Rightarrow> string act" where
  "title_lookup en url w = (yt_title en url, w\<lparr>calls := calls w @ [TitleLookup url]\<rparr>)"

definition captions_fetch :: "env \<Rightarrow> string \<Rightarrow> string list act" where
  "captions_fetch en video_id w =
     (get_transcript en video_id, w\<lparr>calls := calls w @ [CaptionsFetch video_id]\<rparr>)"

definition run :: "env \<Rightarrow> string list \<Rightarrow> unit act" where
  "run en argv w =
     (case subprocess_run en argv (files w) of
        (r, d) \<Rightarrow> (r, w\<lparr>files := d, calls := calls w @ [Subprocess argv]\<rparr>))"

definition exists_file :: "string \<Rightarrow> bool act" where
  "exists_file f w = (Inr (path_exists (files w) f), w)"

definition read_file :: "string \<Rightarrow> string act" where
  "read_file f w = (read_text (files w) f, w)"

definition write_file :: "string \<Rightarrow> string \<Rightarrow> unit act" where
  "write_file f s w = (Inr (), w\<lparr>files := write_text (files w) f s\<rparr>)"

definition change_files :: "(fs \<Rightarrow> exn + fs) \<Rightarrow> unit act" where
  "change_files g w =
     (case g (files w) of Inl e \<Rightarrow> (Inl e, w) | Inr d \<Rightarrow> (Inr (), w\<lparr>files := d\<rparr>))"

definition write_log :: "string \<Rightarrow> unit act" where
  "write_log s w = (Inr (), w\<lparr>logged := logged w @ s\<rparr>)"

definition GCS_BUCKET :: string where
  "GCS_BUCKET = ''chuck-transcription-bucket-20251118''"

definition derived_filename :: "string \<Rightarrow> string \<Rightarrow> string" where
  "derived_filename title video_id = slugify title @ ''-'' @ video_id @ ''-transcript.txt''"

definition yt_dlp_argv :: "string \<Rightarrow> string list" where
  "yt_dlp_argv video_id =
     [''yt-dlp'', ''-x'', ''--audio-format'', ''mp3'', ''-o'', video_id @ ''.%(ext)s'',
      ''https://www.youtube.com/watch?v='' @ video_id]"

text \<open>The loop over \<open>['mp3', 'json', 'srt', 'tsv', 'vtt']\<close> of the Whisper branch.\<close>

fun remove_siblings :: "string \<Rightarrow> string list \<Rightarrow> unit act" where
  "remove_siblings video_id [] w = ret () w"
| "remove_siblings video_id (ext # exts) w =
     bnd (exists_file (video_id @ ''.'' @ ext)) (\<lambda>there.
     bnd (if there then change_files (os_remove (video_id @ ''.'' @ ext)) else ret ()) (\<lambda>_.
     remove_siblings video_id exts)) w"

definition whisper_strategy :: "env \<Rightarrow> string \<Rightarrow> string \<Rightarrow> string act" where
  "whisper_strategy en video_id filename =
     bnd (run en (yt_dlp_argv video_id)) (\<lambda>_.
     bnd (run en [''whisper'', video_id @ ''.mp3'', ''--model'', ''base'',
                  ''--output_format'', ''txt'']) (\<lambda>_.
     bnd (read_file (video_id @ ''.txt'')) (\<lambda>text.
     bnd (change_files (os_rename (video_id @ ''.txt'') filename)) (\<lambda>_.
     bnd (remove_siblings video_id [''mp3'', ''json'', ''srt'', ''tsv'', ''vtt'']) (\<lambda>_.
     ret text)))))"

definition api_strategy :: "env \<Rightarrow> string \<Rightarrow> string \<Rightarrow> string act" where
  "api_strategy en video_id filename =
     bnd (captions_fetch en video_id) (\<lambda>transcript_object.
     bnd (write_file filename (join '' '' transcript_object)) (\<lambda>_.
     ret (join '' '' transcript_object)))"

definition gcs_strategy :: "env \<Rightarrow> string \<Rightarrow> string \<Rightarrow> string act" where
  "gcs_strategy en video_id filename =
     bnd (run en (yt_dlp_argv video_id)) (\<lambda>_.
     bnd (run en [''python3'', ''transcribe_audio.py'', video_id @ ''.mp3'',
                  ''--gcs-bucket'', GCS_BUCKET, ''--output-file'', filename]) (\<lambda>_.
     bnd (read_file filename) (\<lambda>text.
     bnd (change_files (os_remove (video_id @ ''.mp3''))) (\<lambda>_.
     ret text))))"

text \<open>The framed entry of the combined log (four \<open>write\<close> calls on the handle).\<close>

definition framed_entry :: "string \<Rightarrow> string \<Rightarrow> string \<Rightarrow> string \<Rightarrow> string" where
  "framed_entry filename title stamp text =
     ''## Transcript File: '' @ filename @ NL
     @ ''## Video Title: '' @ title @ NL
     @ ''## Retrieved: '' @ stamp @ NL
     @ replicate 40 CHR ''-'' @ NL @ text @ NL @ NL"

datatype status = StNew | StSkipped | StError

text \<open>The body of the \<open>try\<close> block; \<open>has_handle\<close> says that a combined handle was passed.\<close>

definition try_block :: "env \<Rightarrow> string \<Rightarrow> bool \<Rightarrow> bool \<Rightarrow> bool \<Rightarrow> (bool \<times> status) act" where
  "try_block en video_id use_whisper use_api has_handle =
     bnd (title_lookup en (''https://youtube.com/watch?v='' @ video_id)) (\<lambda>title.
     bnd (exists_file (derived_filename title video_id)) (\<lambda>there.
       if there then ret (True, StSkipped)
       else
         bnd (if use_whisper then whisper_strategy en video_id (derived_filename title video_id)
              else if use_api then api_strategy en video_id (derived_filename title video_id)
              else gcs_strategy en video_id (derived_filename title video_id)) (\<lambda>text.
         bnd (if has_handle \<and> text \<noteq> []
              then write_log (framed_entry (derived_filename title video_id) title
                                (now en video_id) text)
              else ret ()) (\<lambda>_.
         ret (True, StNew)))))"

text \<open>
  The two handlers. The first formats the captured stderr with \<open>decode('utf-8')\<close> when it
  is non-empty; an exception raised inside a handler is not caught by the handler next to
  it. \<open>KeyboardInterrupt\<close> and \<open>SystemExit\<close> pass through both.
\<close>

definition download_and_save_transcript ::
  "env \<Rightarrow> string \<Rightarrow> bool \<Rightarrow> bool \<Rightarrow> bool \<Rightarrow> (bool \<times> status) act" where
  "download_and_save_transcript en video_id use_whisper use_api has_handle w =
     (case try_block en video_id use_whisper use_api has_handle w of
        (Inr r, w') \<Rightarrow> (Inr r, w')
      | (Inl (CalledProcessError err), w') \<Rightarrow>
          if err = [] \<or> utf8_ok err then (Inr (False, StError), w')
          else (Inl UnicodeDecodeError, w')
      | (Inl e, w') \<Rightarrow>
          if is_Exception e then (Inr (False, StError), w') else (Inl e, w'))"

section \<open>transcript\_tool.py: the Orchestrator\<close>

record stats =
  new :: nat
  skipped :: nat
  error :: nat

text \<open>\<open>stats[status] += 1\<close>.\<close>

fun count :: "stats \<Rightarrow> status \<Rightarrow> stats" where
  "count st StNew = st\<lparr>new := new st + 1\<rparr>"
| "count st StSkipped = st\<lparr>skipped := skipped st + 1\<rparr>"
| "count st StError = st\<lparr>error := error st + 1\<rparr>"

text \<open>The \<open>for vid in video_ids\<close> loop; an exception leaving the executor leaves the loop.\<close>

fun for_videos :: "env \<Rightarrow> bool \<Rightarrow> bool \<Rightarrow> string list \<Rightarrow> stats \<Rightarrow> stats act" where
  "for_videos en use_whisper use_api [] st w = (Inr st, w)"
| "for_videos en use_whisper use_api (vid # vids) st w =
     (case download_and_save_transcript en vid use_whisper use_api True w of
        (Inl e, w') \<Rightarrow> (Inl e, w')
      | (Inr (success, status), w') \<Rightarrow> for_videos en use_whisper use_api vids (count st status) w')"

text \<open>
  \<open>open(output_file, "a")\<close> creates the file when it is absent. The handle buffers what
  is written; leaving the \<open>with\<close> block appends the buffered text to the file (a file that
  was unlinked meanwhile stays absent).
\<close>

definition open_append :: "string \<Rightarrow> fs \<Rightarrow> fs" where
  "open_append f d = (if path_exists d f then d else AList.update f (Text []) d)"

definition close_append :: "string \<Rightarrow> world \<Rightarrow> world" where
  "close_append f w =
     (case map_of (files w) f of
        Some (Text c) \<Rightarrow> w\<lparr>files := AList.update f (Text (c @ logged w)) (files w)\<rparr>
      | _ \<Rightarrow> w)"

datatype outcome = NothingToDo | Completed stats | Aborted exn

definition process_channel ::
  "listing \<Rightarrow> env \<Rightarrow> string \<Rightarrow> string \<Rightarrow> string \<Rightarrow> bool \<Rightarrow> bool \<Rightarrow> fs
     \<Rightarrow> (outcome \<times> world) option" where
  "process_channel up en api_key channel_id output_file use_whisper use_api d =
     (case get_channel_videos up api_key channel_id of
        None \<Rightarrow> None
      | Some (Inl e) \<Rightarrow> Some (Aborted e, \<lparr>files = d, calls = [], logged = []\<rparr>)
      | Some (Inr video_ids) \<Rightarrow>
          if video_ids = [] then Some (NothingToDo, \<lparr>files = d, calls = [], logged = []\<rparr>)
          else
            (case for_videos en use_whisper use_api video_ids \<lparr>new = 0, skipped = 0, error = 0\<rparr>
                    \<lparr>files = open_append output_file d, calls = [], logged = []\<rparr> of
               (Inl e, w) \<Rightarrow> Some (Aborted e, close_append output_file w)
             | (Inr st, w) \<Rightarrow> Some (Completed st, close_append output_file w)))"

section \<open>transcript\_tool.py: recombining the local artifacts\<close>






section \<open>transcribe\_audio.py: the Staging Adapter\<close>

text \<open>
  What the outside world answers during one run of the script: the clock read for the
  blob name, the storage client and the upload of \<open>upload_blob\<close>, the speech service (for
  each result segment the transcripts of its alternatives), the emission of the
  transcription (output file or stdout), and the storage client and the delete request of
  \<open>delete_blob\<close>. Any of them may raise, \<open>KeyboardInterrupt\<close> included.
\<close>

record cloud =
  clock :: "exn + string"
  upload_client :: "exn + unit"
  upload_from_filename :: "exn + unit"
  long_running_recognize :: "exn + string list list"
  emit :: "exn + unit"
  delete_client :: "exn + unit"
  blob_delete :: "exn + unit"

text \<open>
  The calls a run makes, in order: the upload request, the recognition request, the call
  of \<open>delete_blob\<close> by \<open>main\<close>, and the delete request \<open>blob.delete()\<close> inside it.
\<close>

datatype remote =
    Upload string string string
  | Recognize string
  | DeleteBlob string string
  | BlobDelete string string

record stage =
  gcs_blob_name :: "string option"
  remote_calls :: "remote list"
  emitted :: "(string option \<times> string) option"

definition basename :: "string \<Rightarrow> string" where
  "basename path = rev (takeWhile (\<lambda>c. c \<noteq> CHR ''/'') (rev path))"

definition upload_blob ::
  "cloud \<Rightarrow> string \<Rightarrow> string \<Rightarrow> string \<Rightarrow> remote list \<Rightarrow> (exn + string) \<times> remote list" where
  "upload_blob c bucket_name source_file_name destination_blob_name tr =
     (case upload_client c of
        Inl e \<Rightarrow> (Inl e, tr)
      | Inr _ \<Rightarrow>
          (case upload_from_filename c of
             Inl e \<Rightarrow> (Inl e, tr @ [Upload bucket_name source_file_name destination_blob_name])
           | Inr _ \<Rightarrow>
               (Inr (''gs://'' @ bucket_name @ ''/'' @ destination_blob_name),
                tr @ [Upload bucket_name source_file_name destination_blob_name])))"

text \<open>The handlers of \<open>delete_blob\<close>: \<open>NotFound\<close> first, then every other \<open>Exception\<close>.\<close>

definition delete_handlers :: "exn \<Rightarrow> exn + unit" where
  "delete_handlers e =
     (if e = NotFound then Inr () else if is_Exception e then Inr () else Inl e)"

definition delete_blob ::
  "cloud \<Rightarrow> string \<Rightarrow> string \<Rightarrow> remote list \<Rightarrow> (exn + unit) \<times> remote list" where
  "delete_blob c bucket_name blob_name tr =
     (case delete_client c of
        Inl e \<Rightarrow> (delete_handlers e, tr)
      | Inr _ \<Rightarrow>
          (case blob_delete c of
             Inl e \<Rightarrow> (delete_handlers e, tr @ [BlobDelete bucket_name blob_name])
           | Inr _ \<Rightarrow> (Inr (), tr @ [BlobDelete bucket_name blob_name])))"

text \<open>\<open>result.alternatives[0].transcript\<close> for each result, in order.\<close>

fun best_alternatives :: "string list list \<Rightarrow> exn + string list" where
  "best_alternatives [] = Inr []"
| "best_alternatives (alternatives # results) =
     (case alternatives of
        [] \<Rightarrow> Inl IndexError
      | a # _ \<Rightarrow>
          (case best_alternatives results of Inl e \<Rightarrow> Inl e | Inr ts \<Rightarrow> Inr (a # ts)))"

definition transcribe_gcs_long_running ::
  "cloud \<Rightarrow> string \<Rightarrow> string \<Rightarrow> remote list \<Rightarrow> (exn + string option) \<times> remote list" where
  "transcribe_gcs_long_running c project_id gcs_uri tr =
     (case long_running_recognize c of
        Inl e \<Rightarrow>
          (if is_Exception e then Inr None else Inl e, tr @ [Recognize gcs_uri])
      | Inr results \<Rightarrow>
          (case best_alternatives results of
             Inl e \<Rightarrow> (Inr None, tr @ [Recognize gcs_uri])
           | Inr transcript \<Rightarrow> (Inr (Some (join '' '' transcript)), tr @ [Recognize gcs_uri])))"

text \<open>The \<open>try\<close> block of \<open>main\<close>, from \<open>gcs_blob_name = None\<close> on.\<close>

definition main_try ::
  "cloud \<Rightarrow> string \<Rightarrow> string \<Rightarrow> string \<Rightarrow> string option \<Rightarrow> (exn + unit) \<times> stage" where
  "main_try c audio_file gcs_bucket project_id output_file =
     (case clock c of
        Inl e \<Rightarrow> (Inl e, \<lparr>gcs_blob_name = None, remote_calls = [], emitted = None\<rparr>)
      | Inr timestamp \<Rightarrow>
          (let name = ''audio_transcription/'' @ timestamp @ ''_'' @ basename audio_file in
           case upload_blob c gcs_bucket audio_file name [] of
             (Inl e, tr) \<Rightarrow>
               (Inl e, \<lparr>gcs_blob_name = Some name, remote_calls = tr, emitted = None\<rparr>)
           | (Inr gcs_uri, tr) \<Rightarrow>
               if gcs_uri = [] then
                 (Inl (SystemExit 1),
                  \<lparr>gcs_blob_name = Some name, remote_calls = tr, emitted = None\<rparr>)
               else
                 (case transcribe_gcs_long_running c project_id gcs_uri tr of
                    (Inl e, tr') \<Rightarrow>
                      (Inl e, \<lparr>gcs_blob_name = Some name, remote_calls = tr', emitted = None\<rparr>)
                  | (Inr None, tr') \<Rightarrow>
                      (Inl (SystemExit 1),
                       \<lparr>gcs_blob_name = Some name, remote_calls = tr', emitted = None\<rparr>)
                  | (Inr (Some transcription), tr') \<Rightarrow>
                      (case emit c of
                         Inl e \<Rightarrow>
                           (Inl e,
                            \<lparr>gcs_blob_name = Some name, remote_calls = tr', emitted = None\<rparr>)
                       | Inr _ \<Rightarrow>
                           (Inr (),
                            \<lparr>gcs_blob_name = Some name, remote_calls = tr',
                             emitted = Some (output_file, transcription)\<rparr>)))))"

text \<open>
  \<open>main\<close>: the \<open>try\<close> block, the \<open>KeyboardInterrupt\<close> handler (\<open>sys.exit(0)\<close>) and the
  \<open>finally\<close> block. The result is \<open>Inr ()\<close> for a normal return, \<open>Inl (SystemExit n)\<close> for
  \<open>sys.exit(n)\<close> and \<open>Inl e\<close> for an exception that leaves \<open>main\<close>; an exception raised by
  the \<open>finally\<close> block replaces the pending one.
\<close>

definition main :: "cloud \<Rightarrow> string \<Rightarrow> string \<Rightarrow> string \<Rightarrow> string option \<Rightarrow> (exn + unit) \<times> stage" where
  "main c audio_file gcs_bucket project_id output_file =
     (case main_try c audio_file gcs_bucket project_id output_file of
        (r, s) \<Rightarrow>
          (let pending = (if r = Inl KeyboardInterrupt then Inl (SystemExit 0) else r) in
           case gcs_blob_name s of
             None \<Rightarrow> (pending, s)
           | Some name \<Rightarrow>
               if name = [] then (pending, s)
               else
                 (case delete_blob c gcs_bucket name
                         (remote_calls s @ [DeleteBlob gcs_bucket name]) of
                    (Inl e, tr) \<Rightarrow> (Inl e, s\<lparr>remote_calls := tr\<rparr>)
                  | (Inr _, tr) \<Rightarrow> (pending, s\<lparr>remote_calls := tr\<rparr>))))"

section \<open>Specification predicates and concrete scenarios\<close>

text \<open>
  \<open>stops page acc tok r\<close>: from \<open>tok\<close> the listing serves some pages with a token and then
  either a page without one or a page fetch that raises an \<open>Exception\<close>, and \<open>r\<close> is \<open>acc\<close>
  followed by the identifiers of the pages received.
\<close>

definition stops :: "(string option \<Rightarrow> exn + string list \<times> string option) \<Rightarrow> string list \<Rightarrow> string option \<Rightarrow> string list \<Rightarrow> bool" where
  "stops page acc tok r = (\<exists>ps t. walk page tok ps = Some t \<and>
       ((\<exists>ids nxt. page t = Inr (ids, nxt) \<and> no_token nxt \<and> r = acc @ concat (map fst ps) @ ids)
        \<or> (\<exists>e. page t = Inl e \<and> is_Exception e \<and> r = acc @ concat (map fst ps))))"

text \<open>Three upstream listings: two pages, a failing second page, an unknown channel.\<close>

definition two_pages :: listing where
  "two_pages = \<lparr>build = (\<lambda>k. Inr ()), channels_list = (\<lambda>c. Inr [''UU1'']),
     playlistItems_list = (\<lambda>pl tok.
        if tok = None then Inr ([''abc123'', ''def456''], Some ''P2'')
        else if tok = Some ''P2'' then Inr ([''ghi789''], None)
        else Inl NotFound)\<rparr>"

definition broken_page :: listing where
  "broken_page = \<lparr>build = (\<lambda>k. Inr ()), channels_list = (\<lambda>c. Inr [''UU1'']),
     playlistItems_list = (\<lambda>pl tok.
        if tok = None then Inr ([''abc123'', ''def456''], Some ''P2'')
        else Inl (OtherException ''quota''))\<rparr>"

definition unknown_channel :: listing where
  "unknown_channel = \<lparr>build = (\<lambda>k. Inr ()), channels_list = (\<lambda>c. Inr []),
     playlistItems_list = (\<lambda>pl tok. Inl NotFound)\<rparr>"


text \<open>
  Reading the calls of a Staging Adapter run: where \<open>main\<close> called \<open>delete_blob\<close>, where
  a delete request went out, and where an upload went to.
\<close>

fun delete_calls :: "remote list \<Rightarrow> (string \<times> string) list" where
  "delete_calls [] = []"
| "delete_calls (DeleteBlob b n # tr) = (b, n) # delete_calls tr"
| "delete_calls (x # tr) = delete_calls tr"

fun delete_requests :: "remote list \<Rightarrow> (string \<times> string) list" where
  "delete_requests [] = []"
| "delete_requests (BlobDelete b n # tr) = (b, n) # delete_requests tr"
| "delete_requests (x # tr) = delete_requests tr"

fun upload_targets :: "remote list \<Rightarrow> (string \<times> string) list" where
  "upload_targets [] = []"
| "upload_targets (Upload b f n # tr) = (b, n) # upload_targets tr"
| "upload_targets (x # tr) = upload_targets tr"

text \<open>
  Four runs of the Staging Adapter: everything succeeds; the speech service fails; the
  user interrupts the wait for the transcription; everything succeeds except the remote
  delete.
\<close>

definition all_fine :: cloud where
  "all_fine = \<lparr>clock = Inr ''20251118_101500'', upload_client = Inr (),
     upload_from_filename = Inr (), long_running_recognize = Inr [[''hello'', ''hullo''], [''world'']],
     emit = Inr (), delete_client = Inr (), blob_delete = Inr ()\<rparr>"

definition speech_fails :: cloud where
  "speech_fails = all_fine\<lparr>long_running_recognize := Inl GoogleAPICallError\<rparr>"

definition interrupted :: cloud where
  "interrupted = all_fine\<lparr>long_running_recognize := Inl KeyboardInterrupt\<rparr>"

definition delete_fails :: cloud where
  "delete_fails = all_fine\<lparr>blob_delete := Inl (OtherException ''503'')\<rparr>"

definition blob_absent :: cloud where
  "blob_absent = all_fine\<lparr>upload_from_filename := Inl GoogleAPICallError,
     blob_delete := Inl NotFound\<rparr>"

text \<open>
  Two more runs: no credentials, so that every storage client fails to be built; and a run
  where all succeeds until the user interrupts the delete request.
\<close>

definition no_credentials :: cloud where
  "no_credentials = all_fine\<lparr>upload_client := Inl (OtherException ''no credentials''),
     delete_client := Inl (OtherException ''no credentials'')\<rparr>"

definition delete_interrupted :: cloud where
  "delete_interrupted = all_fine\<lparr>blob_delete := Inl KeyboardInterrupt\<rparr>"


text \<open>Calls that go to the network, as opposed to child processes.\<close>

fun is_network :: "call \<Rightarrow> bool" where
  "is_network (TitleLookup url) = True"
| "is_network (CaptionsFetch v) = True"
| "is_network (Subprocess argv) = False"

definition watch_url :: "string \<Rightarrow> string" where
  "watch_url video_id = ''https://youtube.com/watch?v='' @ video_id"

text \<open>
  A small world for the pipeline: four videos with their titles, captions for two of them
  (one of them without any fragment), child processes that exit non-zero with one byte
  \<open>0xFF\<close> on stderr, and a directory that already holds the artifact of \<open>abc123\<close>.
\<close>

definition demo_env :: env where
  "demo_env = \<lparr>
     yt_title = (\<lambda>url.
        if url = ''https://youtube.com/watch?v=abc123'' then Inr ''First Talk''
        else if url = ''https://youtube.com/watch?v=def456'' then Inr ''Second: Talk''
        else if url = ''https://youtube.com/watch?v=ghi789'' then Inr ''Third''
        else if url = ''https://youtube.com/watch?v=jkl000'' then Inr ''Silent''
        else Inl (OtherException ''unavailable'')),
     get_transcript = (\<lambda>v.
        if v = ''def456'' then Inr [''Hello '', ''world'']
        else if v = ''jkl000'' then Inr []
        else Inl (OtherException ''no captions'')),
     subprocess_run = (\<lambda>argv d. (Inl (CalledProcessError [0xFF]), d)),
     now = (\<lambda>v. ''2025-11-18 10:15:00'')\<rparr>"

definition demo_dir :: fs where
  "demo_dir = [(''first_talk-abc123-transcript.txt'', Text ''old text'')]"

definition demo_world :: world where
  "demo_world = \<lparr>files = demo_dir, calls = [], logged = []\<rparr>"






section \<open>Properties of the Slug Generator\<close>












section \<open>Properties of the Identifier Resolver\<close>

lemma walk_fetch:
  "walk page tok ps = Some tok' \<Longrightarrow>
     fetch_pages page acc tok = fetch_pages page (acc @ concat (map fst ps)) tok'"
proof (induction ps arbitrary: acc tok)
  case Nil
  then show ?case by simp
next
  case (Cons p ps)
  obtain ids nxt where p: "p = (ids, nxt)" by (cases p)
  from Cons.prems p have pg: "page tok = Inr (ids, nxt)" and tk: "\<not> no_token nxt"
    and w: "walk page nxt ps = Some tok'" by (auto split: if_splits)
  have "fetch_pages page acc tok = fetch_pages page (acc @ ids) nxt"
    by (subst fetch_pages.simps) (simp add: pg tk)
  also have "\<dots> = fetch_pages page ((acc @ ids) @ concat (map fst ps)) tok'"
    by (rule Cons.IH [OF w])
  finally show ?case by (simp add: p)
qed

lemma fetch_last:
  "page tok = Inr (ids, nxt) \<Longrightarrow> no_token nxt \<Longrightarrow>
     fetch_pages page acc tok = Some (Inr (acc @ ids))"
  by (subst fetch_pages.simps) simp

lemma fetch_error:
  "page tok = Inl e \<Longrightarrow> is_Exception e \<Longrightarrow> fetch_pages page acc tok = Some (Inr acc)"
  by (subst fetch_pages.simps) simp

lemma fetch_returns:
  "fetch_pages page acc tok = Some res \<Longrightarrow> \<forall>r. res = Inr r \<longrightarrow> stops page acc tok r"
proof (induction rule: fetch_pages.raw_induct [rotated 1, consumes 1])
  case (1 f page acc tok res)
  show ?case
  proof (intro allI impI)
    fix r assume r: "res = Inr r"
    show "stops page acc tok r"
    proof (cases "page tok")
      case (Inl e)
      with 1(2) r have "is_Exception e" "r = acc" by (auto split: if_splits)
      with Inl show ?thesis unfolding stops_def
        by (intro exI [of _ "[]"] exI [of _ tok]) auto
    next
      case (Inr p)
      obtain ids nxt where p: "p = (ids, nxt)" by (cases p)
      show ?thesis
      proof (cases "no_token nxt")
        case True
        with 1(2) r Inr p have "r = acc @ ids" by simp
        with Inr p True show ?thesis unfolding stops_def
          by (intro exI [of _ "[]"] exI [of _ tok]) auto
      next
        case False
        with 1(2) Inr p have fi: "f page (acc @ ids) nxt = Some res" by simp
        from 1(1) [OF fi] r have "stops page (acc @ ids) nxt r" by simp
        then obtain ps t where
          w: "walk page nxt ps = Some t" and
          fin: "(\<exists>ids' nxt'. page t = Inr (ids', nxt') \<and> no_token nxt'
                   \<and> r = (acc @ ids) @ concat (map fst ps) @ ids')
                \<or> (\<exists>e. page t = Inl e \<and> is_Exception e \<and> r = (acc @ ids) @ concat (map fst ps))"
          unfolding stops_def by (elim exE conjE) (rule that)
        from w Inr p False have "walk page tok ((ids, nxt) # ps) = Some t" by simp
        with fin show ?thesis unfolding stops_def
          by (intro exI [of _ "(ids, nxt) # ps"] exI [of _ t]) auto
      qed
    qed
  qed
qed


text \<open>
  Claim C5. With the client built: when the channel lookup raises an \<open>Exception\<close> or
  returns no item, the result is the empty list and nothing is raised. When the lookup
  gives a playlist and the listing serves the pages \<open>ps\<close>, each with a token, the loop
  fetches on; a page without a token (absent or empty, as \<open>not next_page_token\<close> tests)
  ends it with every identifier, in order, and a page fetch that raises an \<open>Exception\<close>
  ends it with the identifiers of the pages before. Conversely a list is only ever
  returned in one of these ways.
\<close>

theorem get_channel_videos_paging:
  assumes "build up api_key = Inr ()"
  shows
    "((\<exists>e. channels_list up channel_id = Inl e \<and> is_Exception e)
        \<or> channels_list up channel_id = Inr []
      \<longrightarrow> get_channel_videos up api_key channel_id = Some (Inr []))
     \<and> (\<forall>pl more ps t.
           channels_list up channel_id = Inr (pl # more)
           \<and> walk (playlistItems_list up pl) None ps = Some t
         \<longrightarrow> (\<forall>ids nxt. playlistItems_list up pl t = Inr (ids, nxt) \<and> no_token nxt
                \<longrightarrow> get_channel_videos up api_key channel_id
                      = Some (Inr (concat (map fst ps) @ ids)))
             \<and> (\<forall>e. playlistItems_list up pl t = Inl e \<and> is_Exception e
                \<longrightarrow> get_channel_videos up api_key channel_id
                      = Some (Inr (concat (map fst ps)))))
     \<and> (\<forall>r. get_channel_videos up api_key channel_id = Some (Inr r)
         \<longrightarrow> (r = [] \<and> ((\<exists>e. channels_list up channel_id = Inl e \<and> is_Exception e)
                          \<or> channels_list up channel_id = Inr []))
             \<or> (\<exists>pl more. channels_list up channel_id = Inr (pl # more)
                   \<and> stops (playlistItems_list up pl) [] None r))"
proof (intro conjI allI impI)
  assume "(\<exists>e. channels_list up channel_id = Inl e \<and> is_Exception e)
            \<or> channels_list up channel_id = Inr []"
  with assms show "get_channel_videos up api_key channel_id = Some (Inr [])"
    by (auto simp: get_channel_videos_def)
next
  fix pl more ps t ids nxt
  assume a: "channels_list up channel_id = Inr (pl # more)
               \<and> walk (playlistItems_list up pl) None ps = Some t"
    and b: "playlistItems_list up pl t = Inr (ids, nxt) \<and> no_token nxt"
  from a assms have "get_channel_videos up api_key channel_id
      = fetch_pages (playlistItems_list up pl) [] None"
    by (simp add: get_channel_videos_def)
  also from a have "\<dots> = fetch_pages (playlistItems_list up pl) ([] @ concat (map fst ps)) t"
    by (intro walk_fetch) simp
  also from b have "\<dots> = Some (Inr (([] @ concat (map fst ps)) @ ids))"
    by (intro fetch_last) auto
  finally show "get_channel_videos up api_key channel_id = Some (Inr (concat (map fst ps) @ ids))"
    by simp
next
  fix pl more ps t e
  assume a: "channels_list up channel_id = Inr (pl # more)
               \<and> walk (playlistItems_list up pl) None ps = Some t"
    and b: "playlistItems_list up pl t = Inl e \<and> is_Exception e"
  from a assms have "get_channel_videos up api_key channel_id
      = fetch_pages (playlistItems_list up pl) [] None"
    by (simp add: get_channel_videos_def)
  also from a have "\<dots> = fetch_pages (playlistItems_list up pl) ([] @ concat (map fst ps)) t"
    by (intro walk_fetch) simp
  also from b have "\<dots> = Some (Inr ([] @ concat (map fst ps)))"
    by (intro fetch_error) auto
  finally show "get_channel_videos up api_key channel_id = Some (Inr (concat (map fst ps)))"
    by simp
next
  fix r
  assume g: "get_channel_videos up api_key channel_id = Some (Inr r)"
  show "(r = [] \<and> ((\<exists>e. channels_list up channel_id = Inl e \<and> is_Exception e)
                     \<or> channels_list up channel_id = Inr []))
        \<or> (\<exists>pl more. channels_list up channel_id = Inr (pl # more)
              \<and> stops (playlistItems_list up pl) [] None r)"
  proof (cases "channels_list up channel_id")
    case (Inl e)
    with g assms show ?thesis by (auto simp: get_channel_videos_def split: if_splits)
  next
    case (Inr pls)
    show ?thesis
    proof (cases pls)
      case Nil
      with g assms Inr show ?thesis by (auto simp: get_channel_videos_def)
    next
      case (Cons pl more)
      with g assms Inr have "fetch_pages (playlistItems_list up pl) [] None = Some (Inr r)"
        by (simp add: get_channel_videos_def)
      from fetch_returns [OF this] have "stops (playlistItems_list up pl) [] None r" by simp
      with Inr Cons show ?thesis by blast
    qed
  qed
qed

theorem get_channel_videos_paging_witness:
  "build two_pages ''key'' = Inr ()
   \<and> get_channel_videos two_pages ''key'' ''UC1'' = Some (Inr [''abc123'', ''def456'', ''ghi789''])
   \<and> get_channel_videos broken_page ''key'' ''UC1'' = Some (Inr [''abc123'', ''def456''])
   \<and> get_channel_videos unknown_channel ''key'' ''UC1'' = Some (Inr [])"
proof -
  have b: "build two_pages ''key'' = Inr ()" "build broken_page ''key'' = Inr ()"
    "build unknown_channel ''key'' = Inr ()"
    by (simp_all add: two_pages_def broken_page_def unknown_channel_def)
  have c: "channels_list two_pages ''UC1'' = Inr (''UU1'' # [])"
    "channels_list broken_page ''UC1'' = Inr (''UU1'' # [])"
    "channels_list unknown_channel ''UC1'' = Inr []"
    by (simp_all add: two_pages_def broken_page_def unknown_channel_def)
  have w: "walk (playlistItems_list two_pages ''UU1'') None [([''abc123'', ''def456''], Some ''P2'')]
             = Some (Some ''P2'')"
    "walk (playlistItems_list broken_page ''UU1'') None [([''abc123'', ''def456''], Some ''P2'')]
             = Some (Some ''P2'')"
    by (simp_all add: two_pages_def broken_page_def no_token_def)
  have p: "playlistItems_list two_pages ''UU1'' (Some ''P2'') = Inr ([''ghi789''], None)"
    "no_token None"
    "playlistItems_list broken_page ''UU1'' (Some ''P2'') = Inl (OtherException ''quota'')"
    "is_Exception (OtherException ''quota'')"
    by (simp_all add: two_pages_def broken_page_def no_token_def)
  have "get_channel_videos two_pages ''key'' ''UC1''
          = Some (Inr (concat (map fst [([''abc123'', ''def456''], Some ''P2'')]) @ [''ghi789'']))"
    using get_channel_videos_paging [OF b(1), of "''UC1''"] c(1) w(1) p(1,2) by blast
  then have 1: "get_channel_videos two_pages ''key'' ''UC1''
             = Some (Inr [''abc123'', ''def456'', ''ghi789''])" by simp
  have "get_channel_videos broken_page ''key'' ''UC1''
          = Some (Inr (concat (map fst [([''abc123'', ''def456''], Some ''P2'')])))"
    using get_channel_videos_paging [OF b(2), of "''UC1''"] c(2) w(2) p(3,4) by blast
  then have 2: "get_channel_videos broken_page ''key'' ''UC1'' = Some (Inr [''abc123'', ''def456''])"
    by simp
  have 3: "get_channel_videos unknown_channel ''key'' ''UC1'' = Some (Inr [])"
    using get_channel_videos_paging [OF b(3), of "''UC1''"] c(3) by blast
  from b 1 2 3 show ?thesis by simp
qed

section \<open>Properties of the Staging Adapter\<close>

lemma delete_calls_append [simp]: "delete_calls (xs @ ys) = delete_calls xs @ delete_calls ys"
  by (induction xs rule: delete_calls.induct) auto

lemma delete_requests_append [simp]:
  "delete_requests (xs @ ys) = delete_requests xs @ delete_requests ys"
  by (induction xs rule: delete_requests.induct) auto

lemma upload_targets_append [simp]:
  "upload_targets (xs @ ys) = upload_targets xs @ upload_targets ys"
  by (induction xs rule: upload_targets.induct) auto

lemma upload_blob_calls:
  "upload_blob c b f n tr = (r, tr') \<Longrightarrow>
     delete_calls tr' = delete_calls tr \<and> delete_requests tr' = delete_requests tr
     \<and> set (upload_targets tr') \<subseteq> set (upload_targets tr) \<union> {(b, n)}"
  by (auto simp: upload_blob_def split: sum.splits)

lemma transcribe_calls:
  "transcribe_gcs_long_running c p u tr = (r, tr') \<Longrightarrow>
     delete_calls tr' = delete_calls tr \<and> delete_requests tr' = delete_requests tr
     \<and> upload_targets tr' = upload_targets tr"
  by (auto simp: transcribe_gcs_long_running_def split: sum.splits)

lemma delete_blob_calls:
  "delete_blob c b n tr = (r, tr') \<Longrightarrow>
     delete_calls tr' = delete_calls tr \<and> upload_targets tr' = upload_targets tr
     \<and> delete_requests tr' = delete_requests tr @ (if delete_client c = Inr () then [(b, n)] else [])"
  by (auto simp: delete_blob_def split: sum.splits)

lemma main_try_stage:
  assumes "clock c = Inr ts" and "main_try c a b p out = (r, s)"
  shows "gcs_blob_name s = Some (''audio_transcription/'' @ ts @ ''_'' @ basename a)
     \<and> delete_calls (remote_calls s) = [] \<and> delete_requests (remote_calls s) = []
     \<and> set (upload_targets (remote_calls s))
          \<subseteq> {(b, ''audio_transcription/'' @ ts @ ''_'' @ basename a)}"
proof -
  let ?n = "''audio_transcription/'' @ ts @ ''_'' @ basename a"
  obtain ru tu where u: "upload_blob c b a ?n [] = (ru, tu)" by (cases "upload_blob c b a ?n []")
  from upload_blob_calls [OF u] have tu: "delete_calls tu = []" "delete_requests tu = []"
    "set (upload_targets tu) \<subseteq> {(b, ?n)}" by auto
  show ?thesis
  proof (cases ru)
    case (Inl e)
    with assms u tu show ?thesis by (auto simp: main_try_def Let_def)
  next
    case (Inr uri)
    obtain rt tt where t: "transcribe_gcs_long_running c p uri tu = (rt, tt)"
      by (cases "transcribe_gcs_long_running c p uri tu")
    from transcribe_calls [OF t] tu have tt: "delete_calls tt = []" "delete_requests tt = []"
      "set (upload_targets tt) \<subseteq> {(b, ?n)}" by auto
    from assms u Inr t have "gcs_blob_name s = Some ?n \<and> (remote_calls s = tu \<or> remote_calls s = tt)"
      by (auto simp: main_try_def Let_def split: if_splits sum.splits option.splits)
    with tu tt show ?thesis by auto
  qed
qed


lemma main_unfold:
  "main c a b p out =
     (let r = fst (main_try c a b p out); s = snd (main_try c a b p out);
          pending = (if r = Inl KeyboardInterrupt then Inl (SystemExit 0) else r) in
      case gcs_blob_name s of
        None \<Rightarrow> (pending, s)
      | Some name \<Rightarrow>
          if name = [] then (pending, s)
          else (case fst (delete_blob c b name (remote_calls s @ [DeleteBlob b name])) of
                  Inl e \<Rightarrow> (Inl e, s\<lparr>remote_calls :=
                              snd (delete_blob c b name (remote_calls s @ [DeleteBlob b name]))\<rparr>)
                | Inr _ \<Rightarrow> (pending, s\<lparr>remote_calls :=
                              snd (delete_blob c b name (remote_calls s @ [DeleteBlob b name]))\<rparr>)))"
  by (simp add: main_def Let_def split: prod.splits sum.splits option.splits)

lemma main_calls:
  assumes "clock c = Inr ts"
  shows "remote_calls (snd (main c a b p out)) =
     snd (delete_blob c b (''audio_transcription/'' @ ts @ ''_'' @ basename a)
        (remote_calls (snd (main_try c a b p out))
          @ [DeleteBlob b (''audio_transcription/'' @ ts @ ''_'' @ basename a)]))"
proof -
  have "main_try c a b p out = (fst (main_try c a b p out), snd (main_try c a b p out))" by simp
  from main_try_stage [OF assms this]
  have "gcs_blob_name (snd (main_try c a b p out))
          = Some (''audio_transcription/'' @ ts @ ''_'' @ basename a)" by simp
  then show ?thesis by (simp add: main_unfold Let_def split: sum.splits)
qed

text \<open>
  Claim C2, as the code has it. Once the blob name is built (the clock was read), \<open>main\<close>
  calls \<open>delete_blob\<close> exactly once on every path through the \<open>try\<close> block, whatever the
  upload, the speech service and the emission of the text do, \<open>KeyboardInterrupt\<close> at any
  of these calls included, and it passes the bucket and the very name the upload went to.
  Inside \<open>delete_blob\<close> exactly one delete request goes out to that location when the
  storage client is built, and none when building it raises. A blob that is absent
  (\<open>NotFound\<close>) makes \<open>delete_blob\<close> return normally.
\<close>

theorem staging_cleanup_once:
  assumes "clock c = Inr ts"
  shows
    "delete_calls (remote_calls (snd (main c a b p out)))
        = [(b, ''audio_transcription/'' @ ts @ ''_'' @ basename a)]
     \<and> set (upload_targets (remote_calls (snd (main c a b p out))))
        \<subseteq> {(b, ''audio_transcription/'' @ ts @ ''_'' @ basename a)}
     \<and> delete_requests (remote_calls (snd (main c a b p out)))
        = (if delete_client c = Inr () then [(b, ''audio_transcription/'' @ ts @ ''_'' @ basename a)]
           else [])
     \<and> (delete_client c = Inr () \<and> blob_delete c = Inl NotFound
        \<longrightarrow> fst (delete_blob c b (''audio_transcription/'' @ ts @ ''_'' @ basename a) tr) = Inr ())"
proof -
  let ?n = "''audio_transcription/'' @ ts @ ''_'' @ basename a"
  let ?s = "snd (main_try c a b p out)"
  have "main_try c a b p out = (fst (main_try c a b p out), ?s)" by simp
  from main_try_stage [OF assms this]
  have st: "delete_calls (remote_calls ?s) = []" "delete_requests (remote_calls ?s) = []"
    "set (upload_targets (remote_calls ?s)) \<subseteq> {(b, ?n)}" by auto
  obtain r tr' where d: "delete_blob c b ?n (remote_calls ?s @ [DeleteBlob b ?n]) = (r, tr')"
    by (cases "delete_blob c b ?n (remote_calls ?s @ [DeleteBlob b ?n])")
  from main_calls [OF assms, of a b p out] d
  have rc: "remote_calls (snd (main c a b p out)) = tr'" by simp
  from delete_blob_calls [OF d] st
  have "delete_calls tr' = [(b, ?n)]" "set (upload_targets tr') \<subseteq> {(b, ?n)}"
    "delete_requests tr' = (if delete_client c = Inr () then [(b, ?n)] else [])"
    by auto
  moreover have "delete_client c = Inr () \<and> blob_delete c = Inl NotFound
      \<longrightarrow> fst (delete_blob c b ?n tr) = Inr ()"
    by (simp add: delete_blob_def delete_handlers_def)
  ultimately show ?thesis unfolding rc by blast
qed

theorem staging_cleanup_once_witness:
  "clock all_fine = Inr ''20251118_101500''
   \<and> fst (main all_fine ''audio/abc123.mp3'' ''bkt'' ''proj'' None) = Inr ()
   \<and> delete_calls (remote_calls (snd (main all_fine ''audio/abc123.mp3'' ''bkt'' ''proj'' None)))
       = [(''bkt'', ''audio_transcription/20251118_101500_abc123.mp3'')]
   \<and> fst (main speech_fails ''audio/abc123.mp3'' ''bkt'' ''proj'' None) = Inl (SystemExit 1)
   \<and> delete_calls (remote_calls (snd (main speech_fails ''audio/abc123.mp3'' ''bkt'' ''proj'' None)))
       = [(''bkt'', ''audio_transcription/20251118_101500_abc123.mp3'')]
   \<and> fst (main interrupted ''audio/abc123.mp3'' ''bkt'' ''proj'' None) = Inl (SystemExit 0)
   \<and> delete_calls (remote_calls (snd (main interrupted ''audio/abc123.mp3'' ''bkt'' ''proj'' None)))
       = [(''bkt'', ''audio_transcription/20251118_101500_abc123.mp3'')]
   \<and> fst (main blob_absent ''audio/abc123.mp3'' ''bkt'' ''proj'' None) = Inl GoogleAPICallError
   \<and> delete_calls (remote_calls (snd (main blob_absent ''audio/abc123.mp3'' ''bkt'' ''proj'' None)))
       = [(''bkt'', ''audio_transcription/20251118_101500_abc123.mp3'')]
   \<and> fst (delete_blob blob_absent ''bkt'' ''audio_transcription/20251118_101500_abc123.mp3'' [])
       = Inr ()"
proof -
  have k: "clock all_fine = Inr ''20251118_101500''" "clock speech_fails = Inr ''20251118_101500''"
    "clock interrupted = Inr ''20251118_101500''" "clock blob_absent = Inr ''20251118_101500''"
    by (simp_all add: all_fine_def speech_fails_def interrupted_def blob_absent_def)
  have n: "''audio_transcription/'' @ ''20251118_101500'' @ ''_'' @ basename ''audio/abc123.mp3''
             = ''audio_transcription/20251118_101500_abc123.mp3''"
    by (simp add: basename_def)
  have q: "delete_client blob_absent = Inr () \<and> blob_delete blob_absent = Inl NotFound"
    by (simp add: blob_absent_def all_fine_def)
  have x: "fst (main all_fine ''audio/abc123.mp3'' ''bkt'' ''proj'' None) = Inr ()"
    "fst (main speech_fails ''audio/abc123.mp3'' ''bkt'' ''proj'' None) = Inl (SystemExit 1)"
    "fst (main interrupted ''audio/abc123.mp3'' ''bkt'' ''proj'' None) = Inl (SystemExit 0)"
    "fst (main blob_absent ''audio/abc123.mp3'' ''bkt'' ''proj'' None) = Inl GoogleAPICallError"
    by code_simp+
  from staging_cleanup_once [OF k(1), of "''audio/abc123.mp3''" "''bkt''" "''proj''" None "[]"]
    staging_cleanup_once [OF k(2), of "''audio/abc123.mp3''" "''bkt''" "''proj''" None "[]"]
    staging_cleanup_once [OF k(3), of "''audio/abc123.mp3''" "''bkt''" "''proj''" None "[]"]
    staging_cleanup_once [OF k(4), of "''audio/abc123.mp3''" "''bkt''" "''proj''" None "[]"]
    k(1) x q
  show ?thesis unfolding n by simp
qed

text \<open>
  The claim as stated fails when the storage client of \<open>delete_blob\<close> cannot be built:
  the name was constructed, \<open>delete_blob\<close> is called, and no delete request is issued.
\<close>

theorem no_delete_request_counterexample:
  "clock no_credentials = Inr ''20251118_101500''
   \<and> gcs_blob_name (snd (main no_credentials ''audio/abc123.mp3'' ''bkt'' ''proj'' None))
       = Some ''audio_transcription/20251118_101500_abc123.mp3''
   \<and> delete_calls (remote_calls (snd (main no_credentials ''audio/abc123.mp3'' ''bkt'' ''proj''
         None)))
       = [(''bkt'', ''audio_transcription/20251118_101500_abc123.mp3'')]
   \<and> delete_requests (remote_calls (snd (main no_credentials ''audio/abc123.mp3'' ''bkt''
         ''proj'' None))) = []"
  by code_simp

text \<open>
  Claim C10, as the code has it. When the storage client and the delete request of
  \<open>delete_blob\<close> succeed or raise an \<open>Exception\<close> (\<open>NotFound\<close> or any other),
  \<open>delete_blob\<close> returns normally, for every bucket and blob name; \<open>main\<close> then ends as
  its \<open>try\<close> block and \<open>KeyboardInterrupt\<close> handler decided, with the same emitted text,
  so that a run whose upload, transcription and emission succeeded returns normally with
  the transcription emitted. An exception that is not an \<open>Exception\<close>
  (\<open>KeyboardInterrupt\<close>, \<open>SystemExit\<close>) raised by either call leaves \<open>delete_blob\<close> and
  becomes the outcome of \<open>main\<close>.
\<close>

theorem delete_blob_never_raises:
  "((\<forall>e. delete_client c = Inl e \<longrightarrow> is_Exception e)
      \<and> (\<forall>e. blob_delete c = Inl e \<longrightarrow> is_Exception e)
    \<longrightarrow> fst (delete_blob c bucket_name blob_name tr) = Inr ()
        \<and> fst (main c a b p out)
            = (if fst (main_try c a b p out) = Inl KeyboardInterrupt then Inl (SystemExit 0)
               else fst (main_try c a b p out))
        \<and> emitted (snd (main c a b p out)) = emitted (snd (main_try c a b p out))
        \<and> (\<forall>ts results transcript.
              clock c = Inr ts \<and> upload_client c = Inr () \<and> upload_from_filename c = Inr ()
              \<and> long_running_recognize c = Inr results
              \<and> best_alternatives results = Inr transcript \<and> emit c = Inr ()
            \<longrightarrow> fst (main c a b p out) = Inr ()
                \<and> emitted (snd (main c a b p out)) = Some (out, join '' '' transcript)))
   \<and> (\<not> is_Exception x
      \<and> (delete_client c = Inl x \<or> (delete_client c = Inr () \<and> blob_delete c = Inl x))
    \<longrightarrow> fst (delete_blob c bucket_name blob_name tr) = Inl x
        \<and> (\<forall>ts. clock c = Inr ts \<longrightarrow> fst (main c a b p out) = Inl x))"
proof (intro conjI impI)
  assume h: "(\<forall>e. delete_client c = Inl e \<longrightarrow> is_Exception e)
      \<and> (\<forall>e. blob_delete c = Inl e \<longrightarrow> is_Exception e)"
  have d: "fst (delete_blob c bn n t) = Inr ()" for bn n t
    using h by (auto simp: delete_blob_def delete_handlers_def split: sum.splits)
  show "fst (delete_blob c bucket_name blob_name tr) = Inr ()" by (rule d)
  show "fst (main c a b p out)
        = (if fst (main_try c a b p out) = Inl KeyboardInterrupt then Inl (SystemExit 0)
           else fst (main_try c a b p out))"
    by (simp add: main_unfold Let_def d split: option.splits)
  show e: "emitted (snd (main c a b p out)) = emitted (snd (main_try c a b p out))"
    by (simp add: main_unfold Let_def d split: option.splits)
  have s: "fst (main_try c a b p out) = Inr ()
           \<and> emitted (snd (main_try c a b p out)) = Some (out, join '' '' transcript)"
    if "clock c = Inr ts \<and> upload_client c = Inr () \<and> upload_from_filename c = Inr ()
        \<and> long_running_recognize c = Inr results \<and> best_alternatives results = Inr transcript
        \<and> emit c = Inr ()" for ts results transcript
    using that
    by (simp add: main_try_def upload_blob_def transcribe_gcs_long_running_def Let_def)
  show "\<forall>ts results transcript.
              clock c = Inr ts \<and> upload_client c = Inr () \<and> upload_from_filename c = Inr ()
              \<and> long_running_recognize c = Inr results
              \<and> best_alternatives results = Inr transcript \<and> emit c = Inr ()
            \<longrightarrow> fst (main c a b p out) = Inr ()
                \<and> emitted (snd (main c a b p out)) = Some (out, join '' '' transcript)"
    using s e by (auto simp: main_unfold Let_def d split: option.splits)
next
  assume x: "\<not> is_Exception x
      \<and> (delete_client c = Inl x \<or> (delete_client c = Inr () \<and> blob_delete c = Inl x))"
  then have nf: "x \<noteq> NotFound" by auto
  from x nf have d: "fst (delete_blob c bn n t) = Inl x" for bn n t
    by (auto simp: delete_blob_def delete_handlers_def)
  show "fst (delete_blob c bucket_name blob_name tr) = Inl x" by (rule d)
  show "\<forall>ts. clock c = Inr ts \<longrightarrow> fst (main c a b p out) = Inl x"
  proof (intro allI impI)
    fix ts assume k: "clock c = Inr ts"
    have "main_try c a b p out = (fst (main_try c a b p out), snd (main_try c a b p out))"
      by simp
    from main_try_stage [OF k this]
    have "gcs_blob_name (snd (main_try c a b p out))
          = Some (''audio_transcription/'' @ ts @ ''_'' @ basename a)" by simp
    then show "fst (main c a b p out) = Inl x"
      by (simp add: main_unfold Let_def d)
  qed
qed

theorem delete_blob_never_raises_witness:
  "delete_client delete_fails = Inr ()
   \<and> blob_delete delete_fails = Inl (OtherException ''503'')
   \<and> is_Exception (OtherException ''503'')
   \<and> fst (delete_blob delete_fails ''bkt'' ''audio_transcription/20251118_101500_abc123.mp3'' [])
       = Inr ()
   \<and> fst (main delete_fails ''audio/abc123.mp3'' ''bkt'' ''proj'' (Some ''out.txt'')) = Inr ()
   \<and> emitted (snd (main delete_fails ''audio/abc123.mp3'' ''bkt'' ''proj'' (Some ''out.txt'')))
       = Some (Some ''out.txt'', ''hello world'')
   \<and> blob_delete delete_interrupted = Inl KeyboardInterrupt
   \<and> fst (main delete_interrupted ''audio/abc123.mp3'' ''bkt'' ''proj'' (Some ''out.txt''))
       = Inl KeyboardInterrupt"
proof -
  have h: "delete_client delete_fails = Inr ()"
    "blob_delete delete_fails = Inl (OtherException ''503'')"
    "is_Exception (OtherException ''503'')"
    by (simp_all add: delete_fails_def all_fine_def)
  then have a: "(\<forall>e. delete_client delete_fails = Inl e \<longrightarrow> is_Exception e)
      \<and> (\<forall>e. blob_delete delete_fails = Inl e \<longrightarrow> is_Exception e)" by simp
  have f: "clock delete_fails = Inr ''20251118_101500'' \<and> upload_client delete_fails = Inr ()
     \<and> upload_from_filename delete_fails = Inr ()
     \<and> long_running_recognize delete_fails = Inr [[''hello'', ''hullo''], [''world'']]
     \<and> best_alternatives [[''hello'', ''hullo''], [''world'']] = Inr [''hello'', ''world'']
     \<and> emit delete_fails = Inr ()"
    by (simp add: delete_fails_def all_fine_def)
  from delete_blob_never_raises [of delete_fails "''bkt''"
      "''audio_transcription/20251118_101500_abc123.mp3''" "[]" "''audio/abc123.mp3''" "''bkt''"
      "''proj''" "Some ''out.txt''"] a f
  have 1: "fst (delete_blob delete_fails ''bkt'' ''audio_transcription/20251118_101500_abc123.mp3'' [])
       = Inr ()
   \<and> fst (main delete_fails ''audio/abc123.mp3'' ''bkt'' ''proj'' (Some ''out.txt'')) = Inr ()
   \<and> emitted (snd (main delete_fails ''audio/abc123.mp3'' ''bkt'' ''proj'' (Some ''out.txt'')))
       = Some (Some ''out.txt'', join '' '' [''hello'', ''world''])"
    by blast
  have i: "\<not> is_Exception KeyboardInterrupt"
    "delete_client delete_interrupted = Inr ()"
    "blob_delete delete_interrupted = Inl KeyboardInterrupt"
    "clock delete_interrupted = Inr ''20251118_101500''"
    by (simp_all add: delete_interrupted_def all_fine_def)
  from delete_blob_never_raises [of delete_interrupted "''bkt''"
      "''audio_transcription/20251118_101500_abc123.mp3''" "[]" "''audio/abc123.mp3''" "''bkt''"
      "''proj''" "Some ''out.txt''" KeyboardInterrupt] i
  have 2: "fst (main delete_interrupted ''audio/abc123.mp3'' ''bkt'' ''proj'' (Some ''out.txt''))
       = Inl KeyboardInterrupt"
    by blast
  from h 1 i(3) 2 show ?thesis by simp
qed

text \<open>
  The claim as stated fails when the user interrupts the delete request: the run had
  succeeded, \<open>delete_blob\<close> raises, and \<open>main\<close> ends with \<open>KeyboardInterrupt\<close>.
\<close>

theorem interrupted_delete_counterexample:
  "fst (main_try delete_interrupted ''audio/abc123.mp3'' ''bkt'' ''proj'' (Some ''out.txt''))
     = Inr ()
   \<and> fst (delete_blob delete_interrupted ''bkt''
          ''audio_transcription/20251118_101500_abc123.mp3'' []) = Inl KeyboardInterrupt
   \<and> fst (main delete_interrupted ''audio/abc123.mp3'' ''bkt'' ''proj'' (Some ''out.txt''))
     = Inl KeyboardInterrupt"
  by code_simp

section \<open>Properties of recombining\<close>









section \<open>Properties of the Strategy Executor and the Orchestrator\<close>












lemma try_block_skips:
  "yt_title en (watch_url vid) = Inr title \<Longrightarrow> path_exists (files w) (derived_filename title vid) \<Longrightarrow>
     try_block en vid uw ua hh w
       = (Inr (True, StSkipped), w\<lparr>calls := calls w @ [TitleLookup (watch_url vid)]\<rparr>)"
  by (simp add: try_block_def bnd_def title_lookup_def exists_file_def ret_def watch_url_def)













lemma download_skips:
  assumes "yt_title en (watch_url vid) = Inr title"
    and "path_exists (files w) (derived_filename title vid)"
  shows "download_and_save_transcript en vid uw ua hh w
       = (Inr (True, StSkipped), w\<lparr>calls := calls w @ [TitleLookup (watch_url vid)]\<rparr>)"
  by (simp add: download_and_save_transcript_def try_block_skips [OF assms])

text \<open>
  Claim C3, as the code has it. The title is looked up first, since the file name is
  derived from it. When that lookup gives a title and the derived file exists, the
  executor returns \<open>(True, "skipped")\<close> having made this one call and nothing else: no
  child process, no captions call, no change to the directory or to the combined log.
\<close>

theorem existing_artifact_skips:
  assumes "yt_title en (watch_url video_id) = Inr title"
    and "path_exists (files w) (derived_filename title video_id)"
  shows "download_and_save_transcript en video_id use_whisper use_api has_handle w
       = (Inr (True, StSkipped), w\<lparr>calls := calls w @ [TitleLookup (watch_url video_id)]\<rparr>)"
  using assms by (rule download_skips)

theorem existing_artifact_skips_witness:
  "yt_title demo_env (watch_url ''abc123'') = Inr ''First Talk''
   \<and> path_exists (files demo_world) (derived_filename ''First Talk'' ''abc123'')
   \<and> download_and_save_transcript demo_env ''abc123'' False False True demo_world
       = (Inr (True, StSkipped), demo_world\<lparr>calls := [TitleLookup (watch_url ''abc123'')]\<rparr>)"
proof -
  have t: "yt_title demo_env (watch_url ''abc123'') = Inr ''First Talk''"
    by (simp add: demo_env_def watch_url_def)
  have p: "path_exists (files demo_world) (derived_filename ''First Talk'' ''abc123'')"
    by code_simp
  have c: "calls demo_world = []" by (simp add: demo_world_def)
  from existing_artifact_skips [OF t p, of False False True] t p c show ?thesis by simp
qed

text \<open>
  The claim as stated fails: the skipped video has cost one network call, the title lookup.
\<close>

theorem skip_after_title_lookup_counterexample:
  "fst (download_and_save_transcript demo_env ''abc123'' False False True demo_world)
     = Inr (True, StSkipped)
   \<and> calls (snd (download_and_save_transcript demo_env ''abc123'' False False True demo_world))
     = [TitleLookup ''https://youtube.com/watch?v=abc123'']
   \<and> is_network (TitleLookup ''https://youtube.com/watch?v=abc123'')"
  by code_simp
















text \<open>
  Claim C1 at a failing input. A child process that exits non-zero with stderr \<open>0xFF\<close>
  makes the first handler raise \<open>UnicodeDecodeError\<close> while it formats its message: the
  executor raises instead of returning \<open>(False, "error")\<close>, the loop of \<open>process_channel\<close>
  is left, and the third video of the listing is never looked at.
\<close>

theorem undecodable_stderr_escapes:
  "subprocess_run demo_env (yt_dlp_argv ''def456'') demo_dir
     = (Inl (CalledProcessError [0xFF]), demo_dir)
   \<and> fst (download_and_save_transcript demo_env ''def456'' False False True demo_world)
     = Inl UnicodeDecodeError
   \<and> get_channel_videos two_pages ''key'' ''UC1'' = Some (Inr [''abc123'', ''def456'', ''ghi789''])
   \<and> map_option fst (process_channel two_pages demo_env ''key'' ''UC1'' ''master.txt'' False False
         demo_dir) = Some (Aborted UnicodeDecodeError)
   \<and> map_option (calls \<circ> snd) (process_channel two_pages demo_env ''key'' ''UC1'' ''master.txt''
         False False demo_dir)
     = Some [TitleLookup ''https://youtube.com/watch?v=abc123'',
             TitleLookup ''https://youtube.com/watch?v=def456'',
             Subprocess (yt_dlp_argv ''def456'')]"
  by code_simp

text \<open>
  What does hold of the executor: a failure of the \<open>try\<close> block that is an \<open>Exception\<close>
  is returned as \<open>(False, "error")\<close>, unless it is a \<open>CalledProcessError\<close> whose stderr is
  not empty and does not decode; and after a video that returned, the loop goes on with
  the next one, counting one outcome per video.
\<close>

lemma executor_classifies:
  assumes "try_block en vid uw ua hh w = (Inl e, w')"
    and "is_Exception e"
    and "\<forall>err. e = CalledProcessError err \<longrightarrow> err = [] \<or> utf8_ok err"
  shows "download_and_save_transcript en vid uw ua hh w = (Inr (False, StError), w')"
  using assms by (cases e) (simp_all add: download_and_save_transcript_def)

lemma loop_goes_on:
  "download_and_save_transcript en vid uw ua True w = (Inr (ok, s), w') \<Longrightarrow>
     for_videos en uw ua (vid # vids) st w = for_videos en uw ua vids (count st s) w'"
  by simp

lemma loop_counts_each:
  "for_videos en uw ua ids st w = (Inr st', w') \<Longrightarrow>
     new st' + skipped st' + error st' = new st + skipped st + error st + length ids"
proof (induction ids arbitrary: st w)
  case Nil
  then show ?case by simp
next
  case (Cons v ids)
  then obtain ok s w1 where
    "download_and_save_transcript en v uw ua True w = (Inr (ok, s), w1)"
    and r: "for_videos en uw ua ids (count st s) w1 = (Inr st', w')"
    by (auto split: prod.splits sum.splits)
  from Cons.IH [OF r] show ?case by (cases s) simp_all
qed

end
